theory Spec2Isabelle
  imports Main "HOL-Library.AList"
begin

section \<open>The room document and the question objects\<close>

text \<open>
  The trivia application keeps one shared document per multiplayer room in a document
  store and lets every client rewrite parts of it. The repository holds three copies of
  the application: the current one (the first document of \<^verbatim>\<open>src/App.jsx\<close>), an older
  copy appended to the same file, and a third copy without a file name
  (\<^verbatim>\<open>unnamed/part_000\<close>). Definitions without a suffix embed the current copy;
  \<open>_legacy\<close> marks the older copy of \<^verbatim>\<open>App.jsx\<close> and \<open>_part000\<close> the unnamed one.

  A JavaScript object is a record; a property that an object may lack is an
  \<open>option\<close> field, \<open>None\<close> standing for \<^verbatim>\<open>undefined\<close>. The \<^verbatim>\<open>answers\<close> object of a
  room is an association list with unique keys in insertion order. Scores are
  JavaScript numbers that only ever grow by one from zero, hence integers.
\<close>

type_synonym uid = string

record player =
  uid :: uid
  name :: string
  score :: int

datatype game_state = waiting | playing | finished

text \<open>One item of the \<^verbatim>\<open>results\<close> array of the trivia API.\<close>

record api_result =
  r_question :: string
  r_correct_answer :: string
  r_incorrect_answers :: "string list"
  r_category :: string
  r_difficulty :: string

text \<open>
  A question as a room stores it. The current copy and \<^verbatim>\<open>part_000\<close> keep the API's
  property \<^verbatim>\<open>correct_answer\<close>; the older copy of \<^verbatim>\<open>App.jsx\<close> renames it to
  \<^verbatim>\<open>correctAnswer\<close>. \<open>q_answers\<close> is the property \<^verbatim>\<open>answers\<close>: the answer options in the
  order fixed when the question set was fetched.
\<close>

record trivia_question =
  question :: string
  correct_answer :: "string option"
  correctAnswer :: "string option"
  incorrect_answers :: "string list"
  q_answers :: "string list"
  category :: string
  q_difficulty :: string

record settings =
  amount :: nat
  categories :: "nat list"
  difficulty :: string

record room_doc =
  hostId :: "uid option"
  players :: "player list"
  questions :: "trivia_question list"
  gameSettings :: "settings option"
  currentQuestionIndex :: nat
  gameState :: game_state
  createdAt :: "nat option"
  answers :: "(uid \<times> string) list"

section \<open>The document store\<close>

text \<open>
  One room document: \<open>None\<close> when it does not exist. \<^verbatim>\<open>updateDoc\<close> takes an object of
  field updates and applies all of them in one write; a key \<^verbatim>\<open>answers.<uid>\<close> sets one
  entry of the nested object and leaves the others, \<^verbatim>\<open>arrayUnion\<close> appends an element
  that the array does not hold yet. User ids come from the authentication service and
  contain no dot, so a dotted key addresses exactly one entry.
\<close>

datatype field_update =
    Players "player list"
  | PlayersArrayUnion player
  | HostId "uid option"
  | GameState game_state
  | CurrentQuestionIndex nat
  | Answers "(uid \<times> string) list"
  | AnswerOf uid string

datatype store_write =
    SetDoc room_doc
  | UpdateDoc "field_update list"
  | DeleteDoc

datatype store_error = NotFound | InvalidData

fun apply_field :: "field_update \<Rightarrow> room_doc \<Rightarrow> room_doc" where
  "apply_field (Players ps) r = r\<lparr>players := ps\<rparr>"
| "apply_field (PlayersArrayUnion p) r =
     r\<lparr>players := (if p \<in> set (players r) then players r else players r @ [p])\<rparr>"
| "apply_field (HostId h) r = r\<lparr>hostId := h\<rparr>"
| "apply_field (GameState g) r = r\<lparr>gameState := g\<rparr>"
| "apply_field (CurrentQuestionIndex i) r = r\<lparr>currentQuestionIndex := i\<rparr>"
| "apply_field (Answers m) r = r\<lparr>answers := m\<rparr>"
| "apply_field (AnswerOf u a) r = r\<lparr>answers := AList.update u a (answers r)\<rparr>"

text \<open>
  The store rejects an update of a document that does not exist and an update that
  carries \<^verbatim>\<open>undefined\<close> as a value; a rejected update changes nothing.
\<close>

fun updateDoc :: "field_update list \<Rightarrow> room_doc option \<Rightarrow> store_error + room_doc" where
  "updateDoc fs None = Inl NotFound"
| "updateDoc fs (Some r) =
     (if HostId None \<in> set fs then Inl InvalidData else Inr (fold apply_field fs r))"

fun apply_write :: "store_write \<Rightarrow> room_doc option \<Rightarrow> room_doc option" where
  "apply_write (SetDoc r) st = Some r"
| "apply_write DeleteDoc st = None"
| "apply_write (UpdateDoc fs) st =
     (case updateDoc fs st of Inl e \<Rightarrow> st | Inr r \<Rightarrow> Some r)"

definition apply_writes :: "store_write list \<Rightarrow> room_doc option \<Rightarrow> room_doc option" where
  "apply_writes ws st = fold apply_write ws st"

section \<open>The Game component\<close>

datatype game_mode = single | multiplayer

datatype modal = GameOver | RoomMissing | NotEnoughQuestions | LoadError

text \<open>
  The React state of the Game component. \<open>gameData\<close> is the client's copy of the room:
  in a multiplayer game the last snapshot the store delivered, which may be older than
  the document.
\<close>

record game_component =
  gameData :: "room_doc option"
  selectedAnswer :: "string option"
  isAnswered :: bool
  modalContent :: "modal option"

definition game_init :: game_component where
  "game_init = \<lparr>gameData = None, selectedAnswer = None, isAnswered = False,
     modalContent = None\<rparr>"

text \<open>
  What a handler did: it returned, having issued the listed writes, or it stopped at a
  TypeError (a property read on \<^verbatim>\<open>undefined\<close> or \<^verbatim>\<open>null\<close>) before any write. The state
  setters called before that point have taken effect in both cases.
\<close>

datatype 'a handled = Returned 'a "store_write list" | TypeError 'a

fun issued :: "'a handled \<Rightarrow> store_write list" where
  "issued (Returned s ws) = ws"
| "issued (TypeError s) = []"

fun state_after :: "'a handled \<Rightarrow> 'a" where
  "state_after (Returned s ws) = s"
| "state_after (TypeError s) = s"

text \<open>\<^verbatim>\<open>xs[i]\<close> is \<^verbatim>\<open>undefined\<close> out of range; \<^verbatim>\<open>findIndex\<close> is \<open>None\<close> where JavaScript gives -1.\<close>

definition at_index :: "'a list \<Rightarrow> nat \<Rightarrow> 'a option" where
  "at_index xs i = (if i < length xs then Some (xs ! i) else None)"

fun findIndex :: "('a \<Rightarrow> bool) \<Rightarrow> 'a list \<Rightarrow> nat option" where
  "findIndex P [] = None"
| "findIndex P (x # xs) =
     (if P x then Some 0 else map_option Suc (findIndex P xs))"

text \<open>The snapshot listener of a multiplayer game (\<^verbatim>\<open>App.jsx\<close>, lines 258 to 267).\<close>

definition game_onSnapshot :: "uid \<Rightarrow> room_doc option \<Rightarrow> game_component \<Rightarrow> game_component" where
  "game_onSnapshot userId snapshot st =
     (case snapshot of
        None \<Rightarrow> st\<lparr>modalContent := Some RoomMissing\<rparr>
      | Some data \<Rightarrow>
          (let myAnswer = map_of (answers data) userId;
               st1 = st\<lparr>gameData := Some data, isAnswered := (myAnswer \<noteq> None)\<rparr>;
               st2 = (case myAnswer of
                        None \<Rightarrow> st1
                      | Some a \<Rightarrow> if a \<noteq> [] then st1\<lparr>selectedAnswer := Some a\<rparr> else st1)
           in if gameState data = finished then st2\<lparr>modalContent := Some GameOver\<rparr>
              else st2))"

text \<open>
  \<^verbatim>\<open>handleAnswerSelect\<close> (\<^verbatim>\<open>App.jsx\<close>, lines 295 to 317). The copy of the player list is
  shallow, so the increment also lands in the player object of \<open>gameData\<close>, in both
  game modes.
\<close>

definition handleAnswerSelect ::
  "uid \<Rightarrow> game_mode \<Rightarrow> game_component \<Rightarrow> string \<Rightarrow> game_component handled" where
  "handleAnswerSelect userId gameMode st answer =
     (if isAnswered st then Returned st []
      else
        (let st1 = st\<lparr>selectedAnswer := Some answer, isAnswered := True\<rparr> in
         case gameData st of
           None \<Rightarrow> TypeError st1
         | Some gd \<Rightarrow>
            (case at_index (questions gd) (currentQuestionIndex gd) of
               None \<Rightarrow> TypeError st1
             | Some currentQuestion \<Rightarrow>
                (let isCorrect = (Some answer = correct_answer currentQuestion) in
                 if isCorrect then
                   (let playerIndex = findIndex (\<lambda>p. uid p = userId) (players gd);
                        updatedPlayers =
                          (case playerIndex of
                             None \<Rightarrow> players gd
                           | Some i \<Rightarrow>
                               (players gd)[i := (players gd ! i)\<lparr>score := score (players gd ! i) + 1\<rparr>]);
                        st2 = st1\<lparr>gameData := Some (gd\<lparr>players := updatedPlayers\<rparr>)\<rparr>
                    in if gameMode = multiplayer
                       then Returned st2 [UpdateDoc [Players updatedPlayers, AnswerOf userId answer]]
                       else Returned st2 [])
                 else if gameMode = multiplayer
                      then Returned st1 [UpdateDoc [AnswerOf userId answer]]
                      else Returned st1 []))))"

text \<open>\<^verbatim>\<open>handleNextQuestion\<close> (\<^verbatim>\<open>App.jsx\<close>, lines 319 to 333).\<close>

definition handleNextQuestion ::
  "uid \<Rightarrow> game_mode \<Rightarrow> game_component \<Rightarrow> game_component handled" where
  "handleNextQuestion userId gameMode st =
     (case gameData st of
        None \<Rightarrow> TypeError st
      | Some gd \<Rightarrow>
         (let nextIndex = currentQuestionIndex gd + 1;
              isGameOver = (nextIndex \<ge> length (questions gd))
          in if gameMode = multiplayer then
               (if hostId gd \<noteq> Some userId then Returned st []
                else Returned st
                  [UpdateDoc (if isGameOver then [GameState finished]
                              else [CurrentQuestionIndex nextIndex, Answers []])])
             else
               (let st1 = st\<lparr>isAnswered := False, selectedAnswer := None\<rparr> in
                if isGameOver
                then Returned (st1\<lparr>gameData := Some (gd\<lparr>gameState := finished\<rparr>)\<rparr>) []
                else Returned (st1\<lparr>gameData := Some (gd\<lparr>currentQuestionIndex := nextIndex\<rparr>)\<rparr>) [])))"

section \<open>The Lobby component\<close>

record lobby_component =
  room :: "room_doc option"
  isHost :: bool
  lobby_error :: "string option"

definition lobby_init :: lobby_component where
  "lobby_init = \<lparr>room = None, isHost = False, lobby_error = None\<rparr>"

datatype view = mainMenu | settingsView | enterName | multiplayerMenu | lobby | game

text \<open>
  The snapshot listener of the lobby (\<^verbatim>\<open>App.jsx\<close>, line 211): the new state and the
  view it switches to, if any. The switch to the multiplayer menu after a deleted room
  happens three seconds later.
\<close>

definition lobby_onSnapshot ::
  "uid \<Rightarrow> room_doc option \<Rightarrow> lobby_component \<Rightarrow> lobby_component \<times> view option" where
  "lobby_onSnapshot userId snapshot st =
     (case snapshot of
        None \<Rightarrow> (st\<lparr>lobby_error := Some ''This room no longer exists.''\<rparr>, Some multiplayerMenu)
      | Some data \<Rightarrow>
          (st\<lparr>room := Some data, isHost := (hostId data = Some userId)\<rparr>,
           if gameState data = playing then Some game else None))"

text \<open>
  \<^verbatim>\<open>handleStartGame\<close> (line 215) issues one write and reads nothing. The lobby renders its
  button for the host only and disables it for an empty player list (line 231).
\<close>

definition handleStartGame :: "store_write list" where
  "handleStartGame = [UpdateDoc [GameState playing]]"

definition startButton :: "lobby_component \<Rightarrow> bool" where
  "startButton st =
     (lobby_error st = None \<and>
      (case room st of None \<Rightarrow> False | Some rm \<Rightarrow> isHost st \<and> \<not> length (players rm) < 1))"

text \<open>
  \<^verbatim>\<open>handleLeaveRoom\<close> (line 216): the writes and the view it switches to once the store
  has accepted them.
\<close>

definition handleLeaveRoom :: "uid \<Rightarrow> lobby_component \<Rightarrow> store_write list \<times> view option" where
  "handleLeaveRoom userId st =
     (case room st of
        None \<Rightarrow> ([], None)
      | Some rm \<Rightarrow>
          (let updatedPlayers = filter (\<lambda>p. uid p \<noteq> userId) (players rm) in
           if length updatedPlayers = 0 then ([DeleteDoc], Some mainMenu)
           else
             (let newHostId =
                    (if isHost st \<and> length updatedPlayers > 0
                     then Some (uid (hd updatedPlayers)) else hostId rm)
              in ([UpdateDoc [Players updatedPlayers, HostId newHostId]], Some mainMenu))))"

section \<open>Creating and joining a room\<close>

text \<open>What a menu handler did: its writes, the message it showed, the view it opened.\<close>

record menu_outcome =
  writes :: "store_write list"
  shown_error :: "string option"
  next_view :: "view option"

text \<open>
  \<^verbatim>\<open>handleCreateRoom\<close> (line 183). \<open>fetched\<close> is what \<^verbatim>\<open>fetchQuestions(gameSettings)\<close>
  returned and \<open>now\<close> the clock. The room code is drawn at random and not checked against
  existing rooms: the write replaces whatever document the code names.
\<close>

definition handleCreateRoom ::
  "uid \<Rightarrow> string \<Rightarrow> settings \<Rightarrow> trivia_question list \<Rightarrow> nat \<Rightarrow> menu_outcome" where
  "handleCreateRoom userId playerName gs fetched now =
     (if length fetched < amount gs
      then \<lparr>writes = [],
            shown_error = Some ''Could not fetch enough questions with these settings. Please try again.'',
            next_view = None\<rparr>
      else \<lparr>writes = [SetDoc \<lparr>hostId = Some userId,
                               players = [\<lparr>uid = userId, name = playerName, score = 0\<rparr>],
                               questions = fetched, gameSettings = Some gs,
                               currentQuestionIndex = 0, gameState = waiting,
                               createdAt = Some now, answers = []\<rparr>],
            shown_error = None, next_view = Some lobby\<rparr>)"

text \<open>
  \<^verbatim>\<open>handleJoinRoom\<close> (lines 529 to 555). \<open>roomDoc\<close> is what \<^verbatim>\<open>getDoc\<close> read for the
  trimmed, upper-cased code.
\<close>

definition handleJoinRoom :: "uid \<Rightarrow> string \<Rightarrow> room_doc option \<Rightarrow> menu_outcome" where
  "handleJoinRoom userId pName roomDoc =
     (case roomDoc of
        None \<Rightarrow> \<lparr>writes = [], shown_error = Some ''Room not found. Check the code and try again.'',
                  next_view = None\<rparr>
      | Some roomData \<Rightarrow>
          if gameState roomData = playing
          then \<lparr>writes = [], shown_error = Some ''This game has already started.'',
                next_view = None\<rparr>
          else \<lparr>writes =
                  (if \<not> list_ex (\<lambda>p. uid p = userId) (players roomData)
                   then [UpdateDoc [PlayersArrayUnion \<lparr>uid = userId, name = pName, score = 0\<rparr>]]
                   else []),
                shown_error = None, next_view = Some lobby\<rparr>)"

text \<open>
  The single-player branch of \<^verbatim>\<open>setupGame\<close> (lines 268 to 272); the multiplayer branch
  only subscribes \<open>game_onSnapshot\<close>.
\<close>

definition setupGame ::
  "uid \<Rightarrow> string \<Rightarrow> game_mode \<Rightarrow> settings \<Rightarrow> trivia_question list \<Rightarrow> game_component
     \<Rightarrow> game_component" where
  "setupGame userId playerName gameMode gs fetched st =
     (if gameMode = multiplayer then st
      else if length fetched < amount gs then st\<lparr>modalContent := Some NotEnoughQuestions\<rparr>
      else st\<lparr>gameData := Some \<lparr>hostId = None,
                  players = [\<lparr>uid = userId, name = playerName, score = 0\<rparr>],
                  questions = fetched, gameSettings = None, currentQuestionIndex = 0,
                  gameState = playing, createdAt = None, answers = []\<rparr>\<rparr>)"

section \<open>The operations of a room\<close>

text \<open>
  An operation is a handler run by a client that has received the latest snapshot of
  the document, followed by its writes. \<open>submit_from\<close> and \<open>leave_from\<close> are the general
  cases of answering and leaving: the client holds the snapshot \<open>cached\<close>, which may be
  older than the document \<open>st\<close> its write meets.
\<close>

definition submit_from ::
  "room_doc option \<Rightarrow> uid \<Rightarrow> string \<Rightarrow> room_doc option \<Rightarrow> room_doc option" where
  "submit_from cached userId answer st =
     apply_writes
       (issued (handleAnswerSelect userId multiplayer (game_onSnapshot userId cached game_init) answer))
       st"

definition submitAnswer :: "uid \<Rightarrow> string \<Rightarrow> room_doc option \<Rightarrow> room_doc option" where
  "submitAnswer userId answer st = submit_from st userId answer st"

definition advanceQuestion :: "uid \<Rightarrow> room_doc option \<Rightarrow> room_doc option" where
  "advanceQuestion userId st =
     apply_writes
       (issued (handleNextQuestion userId multiplayer (game_onSnapshot userId st game_init)))
       st"

definition startGame :: "uid \<Rightarrow> room_doc option \<Rightarrow> room_doc option" where
  "startGame userId st =
     (if startButton (fst (lobby_onSnapshot userId st lobby_init))
      then apply_writes handleStartGame st else st)"

text \<open>
  The leave control of the game view (\<^verbatim>\<open>App.jsx\<close>, line 359; \<^verbatim>\<open>handleLeaveGame\<close> in the
  older copies) opens the main menu and writes nothing.
\<close>

definition handleLeaveGame :: "store_write list \<times> view option" where
  "handleLeaveGame = ([], Some mainMenu)"

text \<open>
  A user in the lobby leaves. When the snapshot shows a game being played, the lobby's
  listener has opened the game view, and the control left to the user is that view's.
\<close>

definition leave_from :: "room_doc option \<Rightarrow> uid \<Rightarrow> room_doc option \<Rightarrow> room_doc option" where
  "leave_from cached userId st =
     (if snd (lobby_onSnapshot userId cached lobby_init) = Some game
      then apply_writes (fst handleLeaveGame) st
      else apply_writes
             (fst (handleLeaveRoom userId (fst (lobby_onSnapshot userId cached lobby_init)))) st)"

definition leaveRoom :: "uid \<Rightarrow> room_doc option \<Rightarrow> room_doc option" where
  "leaveRoom userId st = leave_from st userId st"

definition joinRoom :: "uid \<Rightarrow> string \<Rightarrow> room_doc option \<Rightarrow> room_doc option" where
  "joinRoom userId pName st = apply_writes (writes (handleJoinRoom userId pName st)) st"

definition createRoom ::
  "uid \<Rightarrow> string \<Rightarrow> settings \<Rightarrow> trivia_question list \<Rightarrow> nat \<Rightarrow> room_doc option
     \<Rightarrow> room_doc option" where
  "createRoom userId playerName gs fetched now st =
     apply_writes (writes (handleCreateRoom userId playerName gs fetched now)) st"

text \<open>The score the game shows for a user: that of the first player entry with the id.\<close>

definition scoreOf :: "uid \<Rightarrow> room_doc \<Rightarrow> int option" where
  "scoreOf u r = map_option score (find (\<lambda>p. uid p = u) (players r))"

text \<open>Reading one player's score, answer, or the game state out of the store.\<close>

definition score_in :: "uid \<Rightarrow> room_doc option \<Rightarrow> int option" where
  "score_in u st = Option.bind st (scoreOf u)"

definition answer_in :: "uid \<Rightarrow> room_doc option \<Rightarrow> string option" where
  "answer_in u st = (case st of None \<Rightarrow> None | Some r \<Rightarrow> map_of (answers r) u)"

definition state_in :: "room_doc option \<Rightarrow> game_state option" where
  "state_in st = map_option gameState st"

text \<open>Answers submitted one after the other, each client up to date.\<close>

fun submitAll :: "(uid \<times> string) list \<Rightarrow> room_doc option \<Rightarrow> room_doc option" where
  "submitAll [] st = st"
| "submitAll ((u, a) # subs) st = submitAll subs (submitAnswer u a st)"

datatype op =
    JoinRoom uid string
  | LeaveRoom uid
  | StartGame uid
  | SubmitAnswer uid string
  | AdvanceQuestion uid

fun apply_op :: "op \<Rightarrow> room_doc option \<Rightarrow> room_doc option" where
  "apply_op (JoinRoom u n) st = joinRoom u n st"
| "apply_op (LeaveRoom u) st = leaveRoom u st"
| "apply_op (StartGame u) st = startGame u st"
| "apply_op (SubmitAnswer u a) st = submitAnswer u a st"
| "apply_op (AdvanceQuestion u) st = advanceQuestion u st"

definition run :: "op list \<Rightarrow> room_doc option \<Rightarrow> room_doc option" where
  "run ops st = fold apply_op ops st"

text \<open>
  The game view of a room opens from its lobby, and the lobby after joining or creating
  the room: the user who answers or leaves is in the player list.
\<close>

fun by_member :: "op \<Rightarrow> room_doc option \<Rightarrow> bool" where
  "by_member (SubmitAnswer u a) st =
     (case st of None \<Rightarrow> False | Some r \<Rightarrow> list_ex (\<lambda>p. uid p = u) (players r))"
| "by_member (LeaveRoom u) st =
     (case st of None \<Rightarrow> False | Some r \<Rightarrow> list_ex (\<lambda>p. uid p = u) (players r))"
| "by_member other st = True"

text \<open>A player leaves while \<open>answers\<close> holds an entry of that player.\<close>

fun leaves_answer_behind :: "op \<Rightarrow> room_doc option \<Rightarrow> bool" where
  "leaves_answer_behind (LeaveRoom u) (Some r) = (map_of (answers r) u \<noteq> None)"
| "leaves_answer_behind other st = False"

definition keeps_answers :: "op \<Rightarrow> room_doc option \<Rightarrow> bool" where
  "keeps_answers x st = (by_member x st \<and> \<not> leaves_answer_behind x st)"

text \<open>
  The states a room reaches from \<open>init\<close> by operations, each of which satisfies
  \<open>allowed\<close> in the state it meets.
\<close>

inductive reaches ::
  "(op \<Rightarrow> room_doc option \<Rightarrow> bool) \<Rightarrow> room_doc option \<Rightarrow> room_doc option \<Rightarrow> bool"
  for allowed :: "op \<Rightarrow> room_doc option \<Rightarrow> bool" and init :: "room_doc option" where
  reaches_init: "reaches allowed init init"
| reaches_step: "reaches allowed init st \<Longrightarrow> allowed x st
     \<Longrightarrow> reaches allowed init (apply_op x st)"

fun allowed_along ::
  "(op \<Rightarrow> room_doc option \<Rightarrow> bool) \<Rightarrow> op list \<Rightarrow> room_doc option \<Rightarrow> bool" where
  "allowed_along allowed [] st = True"
| "allowed_along allowed (x # xs) st =
     (allowed x st \<and> allowed_along allowed xs (apply_op x st))"

definition answers_within_players :: "room_doc option \<Rightarrow> bool" where
  "answers_within_players st =
     (case st of None \<Rightarrow> True
      | Some r \<Rightarrow> list_all (\<lambda>k. list_ex (\<lambda>p. uid p = k) (players r)) (map fst (answers r)))"

section \<open>Fetching questions\<close>

text \<open>
  \<^verbatim>\<open>shuffleArray\<close> sorts a copy with a comparator that answers at random. The result is
  a rearrangement of the array; which one depends on the random draws, here a list of
  numbers: each draw picks the next element among those left.
\<close>

fun shuffleArray :: "nat list \<Rightarrow> 'a list \<Rightarrow> 'a list" where
  "shuffleArray ds [] = []"
| "shuffleArray [] xs = xs"
| "shuffleArray (d # ds) xs =
     (let i = d mod length xs in xs ! i # shuffleArray ds (take i xs @ drop (Suc i) xs))"

text \<open>The mapping at the end of \<^verbatim>\<open>fetchQuestions\<close> (line 89): the API's properties and \<^verbatim>\<open>answers\<close>.\<close>

definition with_answers :: "nat list \<Rightarrow> api_result \<Rightarrow> trivia_question" where
  "with_answers ds q =
     \<lparr>question = r_question q, correct_answer = Some (r_correct_answer q),
      correctAnswer = None, incorrect_answers = r_incorrect_answers q,
      q_answers = shuffleArray ds (r_correct_answer q # r_incorrect_answers q),
      category = r_category q, q_difficulty = r_difficulty q\<rparr>"

text \<open>
  What the API sent: one response per selected category (\<open>None\<close> for the whole when a
  request failed, \<open>None\<close> for one response without \<^verbatim>\<open>results\<close>), and the response to the
  request without a category (\<open>None\<close> when it failed or had no \<^verbatim>\<open>results\<close>).
\<close>

record api_responses =
  by_category :: "api_result list option list option"
  any_category :: "api_result list option"

text \<open>
  \<^verbatim>\<open>fetchQuestions\<close> (lines 67 to 90). \<open>ds\<close> are the draws for the order of the
  questions and \<open>da i\<close> those for the answers of the question at position \<open>i\<close>.
\<close>

definition fetchQuestions ::
  "nat list \<Rightarrow> (nat \<Rightarrow> nat list) \<Rightarrow> settings \<Rightarrow> api_responses \<Rightarrow> trivia_question list" where
  "fetchQuestions ds da gs api =
     (let fromCategories =
            (if length (categories gs) > 0
             then (case by_category api of
                     None \<Rightarrow> []
                   | Some results \<Rightarrow>
                       concat (map (\<lambda>res. case res of None \<Rightarrow> [] | Some qs \<Rightarrow> qs) results))
             else []);
          allQuestions =
            (if length fromCategories < amount gs
             then (case any_category api of
                     None \<Rightarrow> fromCategories
                   | Some qs \<Rightarrow> fromCategories @ qs)
             else fromCategories);
          chosen = take (amount gs) (shuffleArray ds allQuestions)
      in map (\<lambda>(i, q). with_answers (da i) q) (enumerate 0 chosen))"

section \<open>The older copies\<close>

text \<open>
  \<^verbatim>\<open>fetchQuestions\<close> of \<^verbatim>\<open>part_000\<close> (lines 48 to 72). Without categories it sends one
  request, answered by a response code and results (\<open>None\<close> when the request failed).
\<close>

definition fetchQuestions_part000 ::
  "nat list \<Rightarrow> (nat \<Rightarrow> nat list) \<Rightarrow> settings \<Rightarrow> (nat \<times> api_result list) option
     \<Rightarrow> api_result list option list option \<Rightarrow> trivia_question list" where
  "fetchQuestions_part000 ds da gs direct perCategory =
     (if length (categories gs) = 0 then
        (case direct of
           None \<Rightarrow> []
         | Some (response_code, results) \<Rightarrow>
             if response_code \<noteq> 0 then []
             else map (\<lambda>(i, q). with_answers (da i) q) (enumerate 0 results))
      else
        (case perCategory of
           None \<Rightarrow> []
         | Some results \<Rightarrow>
             (let allQuestions =
                    concat (map (\<lambda>res. case res of None \<Rightarrow> [] | Some qs \<Rightarrow> qs) results);
                  formattedQuestions =
                    map (\<lambda>(i, q). with_answers (da i) q) (enumerate 0 allQuestions)
              in take (amount gs) (shuffleArray ds formattedQuestions))))"

text \<open>The mapping in \<^verbatim>\<open>fetchQuestions\<close> of the older copy of \<^verbatim>\<open>App.jsx\<close> (lines 668 to 675).\<close>

definition question_legacy :: "nat list \<Rightarrow> api_result \<Rightarrow> trivia_question" where
  "question_legacy ds q =
     \<lparr>question = r_question q, correct_answer = None,
      correctAnswer = Some (r_correct_answer q), incorrect_answers = r_incorrect_answers q,
      q_answers = shuffleArray ds (r_correct_answer q # r_incorrect_answers q),
      category = r_category q, q_difficulty = r_difficulty q\<rparr>"

text \<open>
  The snapshot listener and \<^verbatim>\<open>handleAnswerSelect\<close> of the older copies (\<^verbatim>\<open>App.jsx\<close>, lines
  1075 to 1088 and 1109 to 1141; \<^verbatim>\<open>part_000\<close>, lines 353 to 365 and 400 to 420). The
  handler reads \<^verbatim>\<open>correctAnswer\<close> and writes the whole \<^verbatim>\<open>answers\<close> object.
\<close>

definition game_onSnapshot_legacy ::
  "uid \<Rightarrow> room_doc option \<Rightarrow> game_component \<Rightarrow> game_component" where
  "game_onSnapshot_legacy userId snapshot st =
     (case snapshot of
        None \<Rightarrow> st\<lparr>modalContent := Some RoomMissing\<rparr>
      | Some data \<Rightarrow>
          (let myAnswer = map_of (answers data) userId;
               st1 = st\<lparr>gameData := Some data\<rparr>;
               st2 = (case myAnswer of
                        Some a \<Rightarrow> st1\<lparr>isAnswered := True, selectedAnswer := Some a\<rparr>
                      | None \<Rightarrow> st1\<lparr>isAnswered := False, selectedAnswer := None\<rparr>)
           in if gameState data = finished then st2\<lparr>modalContent := Some GameOver\<rparr>
              else st2))"

definition handleAnswerSelect_legacy ::
  "uid \<Rightarrow> game_mode \<Rightarrow> game_component \<Rightarrow> string \<Rightarrow> game_component handled" where
  "handleAnswerSelect_legacy userId gameMode st answer =
     (if isAnswered st then Returned st []
      else
        (let st1 = st\<lparr>selectedAnswer := Some answer, isAnswered := True\<rparr> in
         case gameData st of
           None \<Rightarrow> TypeError st1
         | Some gd \<Rightarrow>
            (case at_index (questions gd) (currentQuestionIndex gd) of
               None \<Rightarrow> TypeError st1
             | Some currentQuestion \<Rightarrow>
                (let isCorrect = (Some answer = correctAnswer currentQuestion) in
                 if gameMode = multiplayer then
                   (let newAnswers = AList.update userId answer (answers gd);
                        payload = [Answers newAnswers] @
                          (if isCorrect
                           then [Players (map (\<lambda>p. if uid p = userId
                                                     then p\<lparr>score := score p + 1\<rparr> else p)
                                              (players gd))]
                           else [])
                    in Returned st1 [UpdateDoc payload])
                 else if isCorrect then
                   (case players gd of
                      [] \<Rightarrow> TypeError st1
                    | p # ps \<Rightarrow>
                        Returned (st1\<lparr>gameData :=
                          Some (gd\<lparr>players := [p\<lparr>score := score p + 1\<rparr>]\<rparr>)\<rparr>) [])
                 else Returned st1 []))))"

definition submit_from_legacy ::
  "room_doc option \<Rightarrow> uid \<Rightarrow> string \<Rightarrow> room_doc option \<Rightarrow> room_doc option" where
  "submit_from_legacy cached userId answer st =
     apply_writes
       (issued (handleAnswerSelect_legacy userId multiplayer
                  (game_onSnapshot_legacy userId cached game_init) answer))
       st"

definition submitAnswer_legacy :: "uid \<Rightarrow> string \<Rightarrow> room_doc option \<Rightarrow> room_doc option" where
  "submitAnswer_legacy userId answer st = submit_from_legacy st userId answer st"

text \<open>
  \<^verbatim>\<open>handleJoinRoom\<close> of the older copies (\<^verbatim>\<open>App.jsx\<close>, lines 1327 to 1349; \<^verbatim>\<open>part_000\<close>,
  lines 272 to 295): no look at the game state.
\<close>

definition handleJoinRoom_legacy :: "uid \<Rightarrow> string \<Rightarrow> room_doc option \<Rightarrow> menu_outcome" where
  "handleJoinRoom_legacy userId pName roomDoc =
     (case roomDoc of
        None \<Rightarrow> \<lparr>writes = [], shown_error = Some ''Room not found. Check the code and try again.'',
                  next_view = None\<rparr>
      | Some roomData \<Rightarrow>
          \<lparr>writes =
             (if \<not> list_ex (\<lambda>p. uid p = userId) (players roomData)
              then [UpdateDoc [PlayersArrayUnion \<lparr>uid = userId, name = pName, score = 0\<rparr>]]
              else []),
           shown_error = None, next_view = Some lobby\<rparr>)"

text \<open>
  \<^verbatim>\<open>handleCreateRoom\<close> of the older copy of \<^verbatim>\<open>App.jsx\<close> (lines 871 to 897) and the
  single-player branch of \<^verbatim>\<open>setupGame\<close> of both older copies (\<^verbatim>\<open>App.jsx\<close>, lines 1091 to
  1102; \<^verbatim>\<open>part_000\<close>, lines 368 to 373): only an empty fetch is refused.
\<close>

definition handleCreateRoom_legacy ::
  "uid \<Rightarrow> string \<Rightarrow> settings \<Rightarrow> trivia_question list \<Rightarrow> nat \<Rightarrow> menu_outcome" where
  "handleCreateRoom_legacy userId playerName gs fetched now =
     (if length fetched = 0
      then \<lparr>writes = [],
            shown_error = Some ''Could not fetch questions with these settings. Please try again.'',
            next_view = None\<rparr>
      else \<lparr>writes = [SetDoc \<lparr>hostId = Some userId,
                               players = [\<lparr>uid = userId, name = playerName, score = 0\<rparr>],
                               questions = fetched, gameSettings = Some gs,
                               currentQuestionIndex = 0, gameState = waiting,
                               createdAt = Some now, answers = []\<rparr>],
            shown_error = None, next_view = Some lobby\<rparr>)"

definition setupGame_legacy ::
  "uid \<Rightarrow> string \<Rightarrow> game_mode \<Rightarrow> settings \<Rightarrow> trivia_question list \<Rightarrow> game_component
     \<Rightarrow> game_component" where
  "setupGame_legacy userId playerName gameMode gs fetched st =
     (if gameMode = multiplayer then st
      else if length fetched = 0 then st\<lparr>modalContent := Some LoadError\<rparr>
      else st\<lparr>gameData := Some \<lparr>hostId = None,
                  players = [\<lparr>uid = userId, name = playerName, score = 0\<rparr>],
                  questions = fetched, gameSettings = None, currentQuestionIndex = 0,
                  gameState = playing, createdAt = None, answers = []\<rparr>\<rparr>)"

text \<open>
  \<^verbatim>\<open>handleNextQuestion\<close> of \<^verbatim>\<open>part_000\<close> (lines 422 to 440); the older copy of \<^verbatim>\<open>App.jsx\<close>
  (lines 1143 to 1168) issues the same writes.
\<close>

definition handleNextQuestion_part000 ::
  "uid \<Rightarrow> game_mode \<Rightarrow> game_component \<Rightarrow> game_component handled" where
  "handleNextQuestion_part000 userId gameMode st =
     (case gameData st of
        None \<Rightarrow> TypeError st
      | Some gd \<Rightarrow>
         (let nextIndex = currentQuestionIndex gd + 1;
              isGameOver = (nextIndex \<ge> length (questions gd))
          in if gameMode = multiplayer then
               (let isHost = (hostId gd = Some userId) in
                if \<not> isHost then Returned st []
                else Returned st
                  [UpdateDoc (if isGameOver then [GameState finished]
                              else [CurrentQuestionIndex nextIndex, Answers []])])
             else if isGameOver
             then Returned (st\<lparr>gameData := Some (gd\<lparr>gameState := finished\<rparr>)\<rparr>) []
             else Returned (st\<lparr>gameData := Some (gd\<lparr>currentQuestionIndex := nextIndex\<rparr>),
                               isAnswered := False, selectedAnswer := None\<rparr>) []))"

section \<open>Sample data\<close>

definition sample_item :: "string \<Rightarrow> string \<Rightarrow> api_result" where
  "sample_item q c =
     \<lparr>r_question = q, r_correct_answer = c, r_incorrect_answers = [''Oslo'', ''Rome'', ''Bern''],
      r_category = ''Geography'', r_difficulty = ''easy''\<rparr>"

definition sample_results :: "api_result list" where
  "sample_results =
     [sample_item ''Capital of France?'' ''Paris'',
      sample_item ''Capital of Spain?'' ''Madrid'',
      sample_item ''Capital of Peru?'' ''Lima'',
      sample_item ''Capital of Cuba?'' ''Havana'',
      sample_item ''Capital of Chile?'' ''Santiago'',
      sample_item ''Capital of Kenya?'' ''Nairobi'']"

definition five :: settings where
  "five = \<lparr>amount = 5, categories = [], difficulty = []\<rparr>"

definition ten :: settings where
  "ten = \<lparr>amount = 10, categories = [], difficulty = []\<rparr>"

text \<open>Five questions as the current copy fetches them, the draws leaving every order as it is.\<close>

definition five_questions :: "trivia_question list" where
  "five_questions =
     fetchQuestions [] (\<lambda>i. []) five
       \<lparr>by_category = None, any_category = Some (take 5 sample_results)\<rparr>"

text \<open>Ann creates a room of five questions, Bob joins, Ann starts the game.\<close>

definition lobby_of_two :: "room_doc option" where
  "lobby_of_two =
     joinRoom ''B'' ''Bob'' (createRoom ''A'' ''Ann'' five five_questions 0 None)"

definition game_of_two :: "room_doc option" where
  "game_of_two = startGame ''A'' lobby_of_two"

text \<open>The room of Ann and Bob once the game runs, and at its last question, both having answered.\<close>

definition started_room :: room_doc where
  "started_room =
     \<lparr>hostId = Some ''A'',
      players = [\<lparr>uid = ''A'', name = ''Ann'', score = 0\<rparr>, \<lparr>uid = ''B'', name = ''Bob'', score = 0\<rparr>],
      questions = five_questions, gameSettings = Some five, currentQuestionIndex = 0,
      gameState = playing, createdAt = Some 0, answers = []\<rparr>"

definition last_question_room :: room_doc where
  "last_question_room =
     started_room\<lparr>currentQuestionIndex := 4,
       answers := [(''A'', ''Rome''), (''B'', ''Oslo'')]\<rparr>"

definition finished_room :: room_doc where
  "finished_room = last_question_room\<lparr>gameState := finished\<rparr>"

text \<open>
  The same room in its lobby, before the game; the lobby with Cy as a third player; and
  the started room after Ann has given the correct answer to the first question.
\<close>

definition waiting_room :: room_doc where
  "waiting_room = started_room\<lparr>gameState := waiting\<rparr>"


definition ann_scored_room :: room_doc where
  "ann_scored_room =
     started_room\<lparr>players := [\<lparr>uid = ''A'', name = ''Ann'', score = 1\<rparr>,
                               \<lparr>uid = ''B'', name = ''Bob'', score = 0\<rparr>],
                   answers := [(''A'', ''Paris'')]\<rparr>"



text \<open>
  A whole game through the interface: at each of the five questions both answer and the
  host advances; then Bob enters the room's code again and leaves from the lobby.
\<close>

definition one_round :: "op list" where
  "one_round = [SubmitAnswer ''A'' ''Rome'', SubmitAnswer ''B'' ''Oslo'', AdvanceQuestion ''A'']"

definition whole_game :: "op list" where
  "whole_game = one_round @ one_round @ one_round @ one_round @ one_round"

definition rejoin_and_leave :: "op list" where
  "rejoin_and_leave = whole_game @ [JoinRoom ''B'' ''Bob'', LeaveRoom ''B'']"

text \<open>
  Six questions as the older copy of \<^verbatim>\<open>App.jsx\<close> maps them, and a room holding five as
  \<^verbatim>\<open>part_000\<close> fetches them.
\<close>

definition six_questions_legacy :: "trivia_question list" where
  "six_questions_legacy = map (question_legacy []) sample_results"

definition room_part000 :: room_doc where
  "room_part000 =
     started_room\<lparr>questions :=
       fetchQuestions_part000 [] (\<lambda>i. []) five (Some (0, take 5 sample_results)) None\<rparr>"

text \<open>The whole trace of the sample game from the creation of the room.\<close>

definition created_room :: "room_doc option" where
  "created_room = createRoom ''A'' ''Ann'' five five_questions 0 None"

definition from_creation :: "op list" where
  "from_creation = [JoinRoom ''B'' ''Bob'', StartGame ''A''] @ rejoin_and_leave"

text \<open>Bob joins, leaves the lobby and joins again before the game is played.\<close>

definition with_lobby_leave :: "op list" where
  "with_lobby_leave =
     [JoinRoom ''B'' ''Bob'', LeaveRoom ''B'', JoinRoom ''B'' ''Bob'', StartGame ''A''] @ whole_game"

text \<open>How many questions a room or a single-player session holds, and a session's scores.\<close>

definition question_count :: "room_doc option \<Rightarrow> nat option" where
  "question_count st = map_option (\<lambda>r. length (questions r)) st"

definition session_scores :: "game_component \<Rightarrow> int list option" where
  "session_scores st = map_option (\<lambda>r. map score (players r)) (gameData st)"

text \<open>Six questions as the current copy maps them.\<close>

definition six_questions :: "trivia_question list" where
  "six_questions = map (with_answers []) sample_results"

text \<open>A single-player session of \<^verbatim>\<open>part_000\<close> on five fetched questions.\<close>

definition session_part000 :: game_component where
  "session_part000 =
     setupGame_legacy ''B'' ''Bob'' single five
       (fetchQuestions_part000 [] (\<lambda>i. []) five (Some (0, take 5 sample_results)) None)
       game_init"

section \<open>Lists and the first matching player\<close>

lemma at_index_Some: "i < length xs \<Longrightarrow> at_index xs i = Some (xs ! i)"
  by (simp add: at_index_def)

lemma findIndex_less: "findIndex P xs = Some i \<Longrightarrow> i < length xs \<and> P (xs ! i)"
  by (induction xs arbitrary: i) (auto split: if_splits)

lemma findIndex_find:
  "find P xs = Some p \<Longrightarrow>
     \<exists>i. findIndex P xs = Some i \<and> i < length xs \<and> xs ! i = p
       \<and> find P (xs[i := q]) = (if P q then Some q else find P (drop (Suc i) xs))"
proof (induction xs)
  case Nil
  then show ?case by simp
next
  case (Cons x xs)
  show ?case
  proof (cases "P x")
    case True
    with Cons.prems show ?thesis by simp
  next
    case False
    with Cons.prems have "find P xs = Some p" by simp
    from Cons.IH[OF this] obtain i where
      "findIndex P xs = Some i" "i < length xs" "xs ! i = p"
      "find P (xs[i := q]) = (if P q then Some q else find P (drop (Suc i) xs))"
      by blast
    with False show ?thesis by simp
  qed
qed

lemma update_players_other:
  "findIndex (\<lambda>p. uid p = u) ps = Some i \<Longrightarrow> j < length ps \<Longrightarrow> uid (ps ! j) \<noteq> u \<Longrightarrow>
     (ps[i := q]) ! j = ps ! j"
  using findIndex_less[of "\<lambda>p. uid p = u" ps i] by (cases "i = j") auto


lemma bump_first_eq_map:
  "distinct (map uid ps) \<Longrightarrow> findIndex (\<lambda>p. uid p = u) ps = Some i \<Longrightarrow>
     ps[i := (ps ! i)\<lparr>score := score (ps ! i) + 1\<rparr>] =
     map (\<lambda>p. if uid p = u then p\<lparr>score := score p + 1\<rparr> else p) ps"
proof (induction ps arbitrary: i)
  case Nil
  then show ?case by simp
next
  case (Cons x xs)
  show ?case
  proof (cases "uid x = u")
    case True
    with Cons.prems have "u \<notin> uid ` set xs" by auto
    then have "map (\<lambda>p. if uid p = u then p\<lparr>score := score p + 1\<rparr> else p) xs = xs"
      by (intro map_idI) auto
    with True Cons.prems show ?thesis by simp
  next
    case False
    with Cons.prems obtain j where "findIndex (\<lambda>p. uid p = u) xs = Some j" "i = Suc j"
      by auto
    with False Cons.prems Cons.IH[of j] show ?thesis by simp
  qed
qed

lemma findIndex_None_iff: "findIndex P xs = None \<longleftrightarrow> (\<forall>x \<in> set xs. \<not> P x)"
  by (induction xs) auto

lemma uids_after_bump:
  "i < length ps \<Longrightarrow> map uid (ps[i := (ps ! i)\<lparr>score := s\<rparr>]) = map uid ps"
  by (simp add: map_update list_update_same_conv)

section \<open>What each operation does to an existing room\<close>

lemma synced_gameData:
  "gameData (game_onSnapshot userId (Some r) game_init) = Some r"
  "isAnswered (game_onSnapshot userId (Some r) game_init) = (map_of (answers r) userId \<noteq> None)"
  by (auto simp: game_onSnapshot_def game_init_def Let_def split: option.splits)

lemma synced_lobby:
  "fst (lobby_onSnapshot userId (Some r) lobby_init) =
     \<lparr>room = Some r, isHost = (hostId r = Some userId), lobby_error = None\<rparr>"
  by (simp add: lobby_onSnapshot_def lobby_init_def)

lemma submitAnswer_eq:
  "submitAnswer u a (Some r) =
     Some (if map_of (answers r) u \<noteq> None \<or> \<not> currentQuestionIndex r < length (questions r)
           then r
           else if correct_answer (questions r ! currentQuestionIndex r) = Some a
           then r\<lparr>players :=
                    (case findIndex (\<lambda>p. uid p = u) (players r) of
                       None \<Rightarrow> players r
                     | Some i \<Rightarrow>
                         (players r)[i := (players r ! i)\<lparr>score := score (players r ! i) + 1\<rparr>]),
                  answers := AList.update u a (answers r)\<rparr>
           else r\<lparr>answers := AList.update u a (answers r)\<rparr>)"
  by (auto simp: submitAnswer_def submit_from_def handleAnswerSelect_def synced_gameData
      apply_writes_def Let_def at_index_def split: option.splits)

lemma advanceQuestion_eq:
  "advanceQuestion u (Some r) =
     Some (if hostId r \<noteq> Some u then r
           else if currentQuestionIndex r + 1 < length (questions r)
           then r\<lparr>currentQuestionIndex := currentQuestionIndex r + 1, answers := []\<rparr>
           else r\<lparr>gameState := finished\<rparr>)"
  by (simp add: advanceQuestion_def handleNextQuestion_def synced_gameData apply_writes_def Let_def)

lemma startGame_eq:
  "startGame u (Some r) =
     Some (if hostId r = Some u \<and> players r \<noteq> [] then r\<lparr>gameState := playing\<rparr> else r)"
  by (auto simp: startGame_def startButton_def synced_lobby handleStartGame_def apply_writes_def)

lemma joinRoom_eq:
  "joinRoom u n (Some r) =
     Some (if gameState r = playing \<or> list_ex (\<lambda>p. uid p = u) (players r) then r
           else r\<lparr>players := players r @ [\<lparr>uid = u, name = n, score = 0\<rparr>]\<rparr>)"
  by (auto simp: joinRoom_def handleJoinRoom_def apply_writes_def list_ex_iff)

lemma leave_from_eq:
  "leave_from (Some c) u (Some r) =
     (let remaining = filter (\<lambda>p. uid p \<noteq> u) (players c);
          newHostId = (if hostId c = Some u then Some (uid (hd remaining)) else hostId c)
      in if gameState c = playing then Some r
         else if remaining = [] then None
         else if newHostId = None then Some r
         else Some (r\<lparr>players := remaining, hostId := newHostId\<rparr>))"
  by (auto simp: leave_from_def lobby_onSnapshot_def lobby_init_def handleLeaveRoom_def
      handleLeaveGame_def apply_writes_def Let_def)

lemma leaveRoom_eq:
  "leaveRoom u (Some r) =
     (let remaining = filter (\<lambda>p. uid p \<noteq> u) (players r);
          newHostId = (if hostId r = Some u then Some (uid (hd remaining)) else hostId r)
      in if gameState r = playing then Some r
         else if remaining = [] then None
         else if newHostId = None then Some r
         else Some (r\<lparr>players := remaining, hostId := newHostId\<rparr>))"
  by (simp add: leaveRoom_def leave_from_eq)

lemma submit_from_eq:
  "submit_from (Some c) u a (Some r) =
     Some (if map_of (answers c) u \<noteq> None \<or> \<not> currentQuestionIndex c < length (questions c)
           then r
           else if correct_answer (questions c ! currentQuestionIndex c) = Some a
           then r\<lparr>players :=
                    (case findIndex (\<lambda>p. uid p = u) (players c) of
                       None \<Rightarrow> players c
                     | Some i \<Rightarrow>
                         (players c)[i := (players c ! i)\<lparr>score := score (players c ! i) + 1\<rparr>]),
                  answers := AList.update u a (answers r)\<rparr>
           else r\<lparr>answers := AList.update u a (answers r)\<rparr>)"
  by (auto simp: submit_from_def handleAnswerSelect_def synced_gameData
      apply_writes_def Let_def at_index_def split: option.splits)

lemma submit_from_no_snapshot: "submit_from None u a (Some r) = Some r"
  by (simp add: submit_from_def handleAnswerSelect_def game_onSnapshot_def game_init_def
      apply_writes_def)

lemma no_room_stays_none:
  "submitAnswer u a None = None" "advanceQuestion u None = None" "startGame u None = None"
  "joinRoom u n None = None" "leaveRoom u None = None"
  by (simp_all add: submitAnswer_def submit_from_def handleAnswerSelect_def game_onSnapshot_def
      game_init_def advanceQuestion_def handleNextQuestion_def startGame_def startButton_def
      lobby_onSnapshot_def lobby_init_def joinRoom_def handleJoinRoom_def leaveRoom_def
      leave_from_def handleLeaveRoom_def handleLeaveGame_def apply_writes_def)

section \<open>The sample rooms\<close>

lemma game_of_two_eq: "game_of_two = Some started_room"
  by code_simp

lemma lobby_of_two_eq: "lobby_of_two = Some waiting_room"
  by code_simp

lemma whole_game_eq: "run whole_game game_of_two = Some finished_room"
  by code_simp

lemma sample_correct_answers:
  "map correct_answer (questions started_room) =
     [Some ''Paris'', Some ''Madrid'', Some ''Lima'', Some ''Havana'', Some ''Santiago'']"
  by code_simp


section \<open>Answering a question\<close>

text \<open>
  Recording and scoring in the current copy. A player of the room who has not answered
  the current question selects \<open>a\<close>: the handler issues exactly one update, which
  carries the answer entry and, for a correct answer, the player list with the score
  raised; afterwards the room holds \<open>a\<close> for the player, and the player's score is one
  higher when \<open>a\<close> is the question's correct answer and the same when it is not. The
  state of the game plays no part in it.
\<close>

theorem handleAnswerSelect_records_and_scores:
  assumes "find (\<lambda>p. uid p = userId) (players r) = Some p"
    and "map_of (answers r) userId = None"
    and "currentQuestionIndex r < length (questions r)"
  shows "\<exists>fs r'. issued (handleAnswerSelect userId multiplayer
                   (game_onSnapshot userId (Some r) game_init) a) = [UpdateDoc fs]
     \<and> AnswerOf userId a \<in> set fs
     \<and> submitAnswer userId a (Some r) = Some r'
     \<and> map_of (answers r') userId = Some a
     \<and> scoreOf userId r' =
          Some (if correct_answer (questions r ! currentQuestionIndex r) = Some a
                then score p + 1 else score p)"
proof -
  from findIndex_find[OF assms(1), of "p\<lparr>score := score p + 1\<rparr>"]
  obtain i where i: "findIndex (\<lambda>p. uid p = userId) (players r) = Some i"
    "i < length (players r)" "players r ! i = p"
    "find (\<lambda>p. uid p = userId) ((players r)[i := p\<lparr>score := score p + 1\<rparr>]) =
       (if uid (p\<lparr>score := score p + 1\<rparr>) = userId then Some (p\<lparr>score := score p + 1\<rparr>)
        else find (\<lambda>p. uid p = userId) (drop (Suc i) (players r)))"
    by blast
  have "uid p = userId" using assms(1) by (auto simp: find_Some_iff)
  with i assms show ?thesis
    by (auto simp: submitAnswer_def submit_from_def handleAnswerSelect_def synced_gameData
      apply_writes_def Let_def at_index_def scoreOf_def update_conv')
qed

theorem handleAnswerSelect_records_and_scores_witness:
  "score_in ''B'' (submitAnswer ''B'' ''Paris'' (Some started_room)) = Some 1
     \<and> answer_in ''B'' (submitAnswer ''B'' ''Paris'' (Some started_room)) = Some ''Paris''
     \<and> score_in ''B'' (submitAnswer ''B'' ''Rome'' (Some started_room)) = Some 0"
proof -
  let ?bob = "\<lparr>uid = ''B'', name = ''Bob'', score = 0\<rparr>"
  have h1: "find (\<lambda>p. uid p = ''B'') (players started_room) = Some ?bob"
    by (simp add: started_room_def)
  have h2: "map_of (answers started_room) ''B'' = None"
    by (simp add: started_room_def)
  have h3: "currentQuestionIndex started_room < length (questions started_room)"
    by code_simp
  have q: "correct_answer (questions started_room ! currentQuestionIndex started_room) = Some ''Paris''"
    by code_simp
  from handleAnswerSelect_records_and_scores[OF h1 h2 h3, of "''Paris''"] q
  have a: "score_in ''B'' (submitAnswer ''B'' ''Paris'' (Some started_room)) = Some 1
     \<and> answer_in ''B'' (submitAnswer ''B'' ''Paris'' (Some started_room)) = Some ''Paris''"
    by (auto simp: score_in_def answer_in_def)
  from handleAnswerSelect_records_and_scores[OF h1 h2 h3, of "''Rome''"] q
  have "score_in ''B'' (submitAnswer ''B'' ''Rome'' (Some started_room)) = Some 0"
    by (auto simp: score_in_def)
  with a show ?thesis by simp
qed

text \<open>
  C2. A player who already has an entry in \<open>answers\<close> for the current question selects
  another answer: the handler issues no write, and the room stays as it is, entry and
  score included.
\<close>

theorem submitAnswer_twice_is_noop:
  assumes "map_of (answers r) userId = Some a0"
  shows "issued (handleAnswerSelect userId multiplayer
           (game_onSnapshot userId (Some r) game_init) a) = []
     \<and> submitAnswer userId a (Some r) = Some r"
  using assms
  by (simp add: submitAnswer_def submit_from_def handleAnswerSelect_def synced_gameData
      apply_writes_def)

theorem submitAnswer_twice_is_noop_witness:
  "submitAnswer ''B'' ''Paris'' (Some last_question_room) = Some last_question_room"
proof -
  have "map_of (answers last_question_room) ''B'' = Some ''Oslo''"
    by (simp add: last_question_room_def)
  from submitAnswer_twice_is_noop[OF this] show ?thesis by simp
qed

text \<open>
  C10, as it holds. A player selects an answer on whatever snapshot of the room the
  client holds, and the write meets the document \<open>r\<close>. The game state, the host, the
  question index and the questions (with their answer orders) of the document stay as
  they were. When the answer is not the correct one of the question the client shows,
  the player list stays as well, and the document is either unchanged or differs only
  in the answer entry of the player. When the client holds the document itself as its
  snapshot, the entry of every player with another id stays too; a correct answer from
  an older snapshot writes the player list of that snapshot, the player's score raised.
\<close>

theorem submit_from_frame:
  "\<exists>r'. submit_from cached userId a (Some r) = Some r'
     \<and> gameState r' = gameState r \<and> hostId r' = hostId r
     \<and> currentQuestionIndex r' = currentQuestionIndex r \<and> questions r' = questions r
     \<and> (cached = Some r \<longrightarrow>
          length (players r') = length (players r)
          \<and> (\<forall>j < length (players r).
                uid (players r ! j) \<noteq> userId \<longrightarrow> players r' ! j = players r ! j))
     \<and> ((case cached of
            None \<Rightarrow> True
          | Some c \<Rightarrow> correct_answer (questions c ! currentQuestionIndex c) \<noteq> Some a) \<longrightarrow>
          players r' = players r
          \<and> (r' = r \<or> r' = r\<lparr>answers := AList.update userId a (answers r)\<rparr>))
     \<and> ((case cached of
            None \<Rightarrow> False
          | Some c \<Rightarrow> map_of (answers c) userId = None
              \<and> currentQuestionIndex c < length (questions c)
              \<and> correct_answer (questions c ! currentQuestionIndex c) = Some a) \<longrightarrow>
          (\<exists>c. cached = Some c \<and> length (players r') = length (players c)
             \<and> (\<forall>j < length (players c).
                   uid (players c ! j) \<noteq> userId \<longrightarrow> players r' ! j = players c ! j)))"
proof (cases cached)
  case None
  then show ?thesis by (simp add: submit_from_no_snapshot)
next
  case (Some c)
  then show ?thesis
    by (auto simp: submit_from_eq update_players_other split: option.splits)
qed

theorem submit_from_frame_witness:
  "score_in ''A'' (submit_from (Some started_room) ''B'' ''Rome'' (Some ann_scored_room)) = Some 1
   \<and> state_in (submit_from (Some started_room) ''B'' ''Rome'' (Some ann_scored_room))
       = Some playing"
proof -
  have q: "correct_answer (questions started_room ! currentQuestionIndex started_room) \<noteq> Some ''Rome''"
    by code_simp
  have s: "scoreOf ''A'' ann_scored_room = Some 1"
    by (simp add: scoreOf_def ann_scored_room_def)
  have g: "gameState ann_scored_room = playing"
    by (simp add: ann_scored_room_def started_room_def)
  from submit_from_frame[of "Some started_room" "''B''" "''Rome''" ann_scored_room] q
  obtain r' where
    "submit_from (Some started_room) ''B'' ''Rome'' (Some ann_scored_room) = Some r'"
    "gameState r' = gameState ann_scored_room" "players r' = players ann_scored_room"
    by auto
  with s g show ?thesis by (simp add: score_in_def state_in_def scoreOf_def)
qed

text \<open>
  C10 as stated fails. Ann has given the correct answer, and her score in the document
  is 1. Bob's client still holds the snapshot from before; he selects the correct answer
  too. His write carries the player list of his snapshot: Ann's entry, which is not his,
  goes from score 1 to score 0.
\<close>

theorem stale_correct_answer_resets_other_score:
  "submitAnswer ''A'' ''Paris'' (Some started_room) = Some ann_scored_room
   \<and> score_in ''A'' (Some ann_scored_room) = Some 1
   \<and> score_in ''A'' (submit_from (Some started_room) ''B'' ''Paris'' (Some ann_scored_room))
       = Some 0"
  by code_simp

section \<open>Advancing and leaving\<close>

text \<open>
  C4. The host advances: when a question follows the current one, the index grows by
  one and \<open>answers\<close> becomes empty; at the last index the game state becomes
  \<open>finished\<close> and the index stays. Nothing else in the room changes.
\<close>

theorem advanceQuestion_by_host:
  assumes "hostId r = Some userId"
  shows "advanceQuestion userId (Some r) =
     Some (if currentQuestionIndex r + 1 < length (questions r)
           then r\<lparr>currentQuestionIndex := currentQuestionIndex r + 1, answers := []\<rparr>
           else r\<lparr>gameState := finished\<rparr>)"
  using assms by (simp add: advanceQuestion_eq)

theorem advanceQuestion_by_host_witness:
  "advanceQuestion ''A'' (Some started_room) =
     Some (started_room\<lparr>currentQuestionIndex := 1, answers := []\<rparr>)
   \<and> advanceQuestion ''A'' (Some last_question_room) = Some finished_room"
proof -
  have h1: "hostId started_room = Some ''A''" by (simp add: started_room_def)
  have h2: "hostId last_question_room = Some ''A''"
    by (simp add: last_question_room_def started_room_def)
  have l1: "currentQuestionIndex started_room + 1 < length (questions started_room)"
    by code_simp
  have l2: "\<not> currentQuestionIndex last_question_room + 1 < length (questions last_question_room)"
    by code_simp
  have i: "currentQuestionIndex started_room + 1 = 1" by (simp add: started_room_def)
  from advanceQuestion_by_host[OF h1] advanceQuestion_by_host[OF h2] l1 l2 i show ?thesis
    by (simp add: finished_room_def)
qed




section \<open>Answers of several players\<close>

lemma submitAnswer_fresh:
  assumes "map_of (answers r) u = None"
    and "currentQuestionIndex r < length (questions r)"
    and "distinct (map uid (players r))"
  shows "submitAnswer u a (Some r) =
     Some (r\<lparr>players :=
               map (\<lambda>p. if uid p = u
                           \<and> correct_answer (questions r ! currentQuestionIndex r) = Some a
                         then p\<lparr>score := score p + 1\<rparr> else p) (players r),
             answers := AList.update u a (answers r)\<rparr>)"
proof (cases "correct_answer (questions r ! currentQuestionIndex r) = Some a")
  case False
  with assms show ?thesis by (simp add: submitAnswer_eq)
next
  case True
  show ?thesis
  proof (cases "findIndex (\<lambda>p. uid p = u) (players r)")
    case None
    then have "\<forall>p \<in> set (players r). uid p \<noteq> u" by (simp add: findIndex_None_iff)
    then have "map (\<lambda>p. if uid p = u then p\<lparr>score := score p + 1\<rparr> else p) (players r) = players r"
      by (intro map_idI) auto
    with None True assms show ?thesis by (simp add: submitAnswer_eq)
  next
    case (Some i)
    from bump_first_eq_map[OF assms(3) Some] Some True assms show ?thesis
      by (simp add: submitAnswer_eq)
  qed
qed

lemma uids_after_map: "(\<And>p. uid (g p) = uid p) \<Longrightarrow> map uid (map g ps) = map uid ps"
  by (induction ps) auto

lemma length_update_new:
  "map_of al k = None \<Longrightarrow> length (AList.update k v al) = Suc (length al)"
  by (induction al) (auto split: if_splits)

lemma submitAll_sequential_aux:
  assumes "distinct (map fst subs)"
    and "\<forall>u \<in> fst ` set subs. map_of (answers r) u = None"
    and "currentQuestionIndex r < length (questions r)"
    and "distinct (map uid (players r))"
  shows "\<exists>r'. submitAll subs (Some r) = Some r'
     \<and> map_of (answers r') = map_of (answers r) ++ map_of subs
     \<and> length (answers r') = length (answers r) + length subs
     \<and> players r' =
         map (\<lambda>p. if (case map_of subs (uid p) of
                         None \<Rightarrow> False
                       | Some a \<Rightarrow> correct_answer (questions r ! currentQuestionIndex r) = Some a)
                   then p\<lparr>score := score p + 1\<rparr> else p) (players r)
     \<and> questions r' = questions r \<and> currentQuestionIndex r' = currentQuestionIndex r
     \<and> gameState r' = gameState r \<and> hostId r' = hostId r"
  using assms
proof (induction subs arbitrary: r)
  case Nil
  then show ?case by (simp add: map_idI)
next
  case (Cons x subs)
  obtain u a where x: "x = (u, a)" by (cases x)
  let ?ok = "\<lambda>b. correct_answer (questions r ! currentQuestionIndex r) = Some b"
  let ?g = "\<lambda>p. if uid p = u \<and> ?ok a then p\<lparr>score := score p + 1\<rparr> else p"
  let ?r1 = "r\<lparr>players := map ?g (players r), answers := AList.update u a (answers r)\<rparr>"
  from Cons.prems x have fresh: "map_of (answers r) u = None" by simp
  from Cons.prems x have notin: "u \<notin> fst ` set subs" by simp
  have step: "submitAnswer u a (Some r) = Some ?r1"
    using fresh Cons.prems(3,4) by (rule submitAnswer_fresh)
  have uids: "map uid (map ?g (players r)) = map uid (players r)"
    by (rule uids_after_map) simp
  have p1: "distinct (map fst subs)" using Cons.prems(1) by simp
  have p2: "\<forall>v \<in> fst ` set subs. map_of (answers ?r1) v = None"
    using Cons.prems(2) notin x by (auto simp: update_conv')
  have p3: "currentQuestionIndex ?r1 < length (questions ?r1)" using Cons.prems(3) by simp
  have "players ?r1 = map ?g (players r)" by simp
  with uids Cons.prems(4) have p4: "distinct (map uid (players ?r1))" by (simp only:)
  let ?h1 = "\<lambda>p. if (case map_of subs (uid p) of None \<Rightarrow> False | Some b \<Rightarrow> ?ok b)
                 then p\<lparr>score := score p + 1\<rparr> else p"
  let ?h = "\<lambda>p. if (case map_of (x # subs) (uid p) of None \<Rightarrow> False | Some b \<Rightarrow> ?ok b)
                 then p\<lparr>score := score p + 1\<rparr> else p"
  from Cons.IH[OF p1 p2 p3 p4] obtain r' where r':
    "submitAll subs (Some ?r1) = Some r'"
    "map_of (answers r') = map_of (answers ?r1) ++ map_of subs"
    "length (answers r') = length (answers ?r1) + length subs"
    "players r' =
       map (\<lambda>p. if (case map_of subs (uid p) of
                       None \<Rightarrow> False
                     | Some b \<Rightarrow> correct_answer (questions ?r1 ! currentQuestionIndex ?r1) = Some b)
                 then p\<lparr>score := score p + 1\<rparr> else p) (players ?r1)"
    "questions r' = questions ?r1" "currentQuestionIndex r' = currentQuestionIndex ?r1"
    "gameState r' = gameState ?r1" "hostId r' = hostId ?r1"
    by blast
  have none: "map_of subs u = None"
    using notin by (simp add: map_of_eq_None_iff)
  have a1: "map_of (answers r') = map_of (answers r) ++ map_of (x # subs)"
  proof
    fix v
    show "map_of (answers r') v = (map_of (answers r) ++ map_of (x # subs)) v"
      using r'(2) none x
      by (cases "v = u") (auto simp: update_conv' map_add_def split: option.splits)
  qed
  have a2: "length (answers r') = length (answers r) + length (x # subs)"
    using r'(3) fresh by (simp add: length_update_new)
  have pt: "?h1 (?g p) = ?h p" for p
    using none x by (cases "uid p = u") simp_all
  have sel: "questions ?r1 = questions r" "currentQuestionIndex ?r1 = currentQuestionIndex r"
    "players ?r1 = map ?g (players r)"
    by simp_all
  have "players r' = map ?h1 (map ?g (players r))" using r'(4) unfolding sel .
  also have "\<dots> = map (\<lambda>p. ?h1 (?g p)) (players r)" by (simp only: map_map comp_def)
  also have "\<dots> = map ?h (players r)" by (rule map_cong[OF refl]) (rule pt)
  finally have a3: "players r' = map ?h (players r)" .
  have rest: "questions r' = questions r" "currentQuestionIndex r' = currentQuestionIndex r"
    "gameState r' = gameState r" "hostId r' = hostId r"
    using r'(5-8) by simp_all
  have "submitAll (x # subs) (Some r) = Some r'" using step r'(1) x by simp
  with a1 a2 a3 rest show ?case by blast
qed

text \<open>
  C3, as it holds. Players with different ids answer the same question one after the
  other, each on the latest snapshot of the room; none of them had answered, the index
  is in range and the ids of the player list are distinct. Then \<open>answers\<close> holds the old
  entries and exactly one new entry for each of them, and the score of a player is one
  higher exactly when that player's answer is the correct one. The player list of each
  write is computed from the snapshot its client holds.
\<close>

theorem submitAll_sequential:
  assumes "distinct (map fst subs)"
    and "\<forall>u \<in> fst ` set subs. map_of (answers r) u = None"
    and "currentQuestionIndex r < length (questions r)"
    and "distinct (map uid (players r))"
  shows "\<exists>r'. submitAll subs (Some r) = Some r'
     \<and> map_of (answers r') = map_of (answers r) ++ map_of subs
     \<and> length (answers r') = length (answers r) + length subs
     \<and> players r' =
         map (\<lambda>p. if (case map_of subs (uid p) of
                         None \<Rightarrow> False
                       | Some a \<Rightarrow> correct_answer (questions r ! currentQuestionIndex r) = Some a)
                   then p\<lparr>score := score p + 1\<rparr> else p) (players r)"
  using submitAll_sequential_aux[OF assms] by blast

theorem submitAll_sequential_witness:
  "score_in ''A'' (submitAll [(''A'', ''Paris''), (''B'', ''Paris'')] (Some started_room)) = Some 1
   \<and> score_in ''B'' (submitAll [(''A'', ''Paris''), (''B'', ''Paris'')] (Some started_room)) = Some 1
   \<and> answer_in ''A'' (submitAll [(''A'', ''Paris''), (''B'', ''Paris'')] (Some started_room))
       = Some ''Paris''"
proof -
  let ?subs = "[(''A'', ''Paris''), (''B'', ''Paris'')]"
  have h1: "distinct (map fst ?subs)" by simp
  have h2: "\<forall>u \<in> fst ` set ?subs. map_of (answers started_room) u = None"
    by (simp add: started_room_def)
  have h3: "currentQuestionIndex started_room < length (questions started_room)"
    by code_simp
  have h4: "distinct (map uid (players started_room))" by (simp add: started_room_def)
  have q: "correct_answer (questions started_room ! currentQuestionIndex started_room) = Some ''Paris''"
    by code_simp
  from submitAll_sequential[OF h1 h2 h3 h4] obtain r' where
    "submitAll ?subs (Some started_room) = Some r'"
    "map_of (answers r') = map_of (answers started_room) ++ map_of ?subs"
    "players r' =
       map (\<lambda>p. if (case map_of ?subs (uid p) of
                       None \<Rightarrow> False
                     | Some a \<Rightarrow>
                         correct_answer (questions started_room ! currentQuestionIndex started_room)
                           = Some a)
                 then p\<lparr>score := score p + 1\<rparr> else p) (players started_room)"
    by blast
  with q show ?thesis
    by (simp add: score_in_def answer_in_def scoreOf_def started_room_def)
qed

text \<open>
  C3 as stated fails. Ann and Bob both hold the snapshot of the started room and both
  select the correct answer. Ann's write arrives first, Bob's second: Bob's player list
  was computed from his snapshot, where Ann's score is 0, and replaces the list of the
  document. Both answers are recorded, and Ann's point is gone.
\<close>

theorem concurrent_answers_lose_a_point:
  "answer_in ''A'' (submit_from (Some started_room) ''B'' ''Paris''
       (submit_from (Some started_room) ''A'' ''Paris'' (Some started_room))) = Some ''Paris''
   \<and> answer_in ''B'' (submit_from (Some started_room) ''B'' ''Paris''
       (submit_from (Some started_room) ''A'' ''Paris'' (Some started_room))) = Some ''Paris''
   \<and> score_in ''A'' (submit_from (Some started_room) ''A'' ''Paris'' (Some started_room)) = Some 1
   \<and> score_in ''A'' (submit_from (Some started_room) ''B'' ''Paris''
       (submit_from (Some started_room) ''A'' ''Paris'' (Some started_room))) = Some 0
   \<and> score_in ''B'' (submit_from (Some started_room) ''B'' ''Paris''
       (submit_from (Some started_room) ''A'' ''Paris'' (Some started_room))) = Some 1"
  by code_simp


text \<open>
  C1 in \<^verbatim>\<open>part_000\<close>. Its \<^verbatim>\<open>fetchQuestions\<close> keeps the API's property \<^verbatim>\<open>correct_answer\<close>,
  while its \<^verbatim>\<open>handleAnswerSelect\<close> compares the selected answer with the property
  \<^verbatim>\<open>correctAnswer\<close>, which these questions do not have. The first question asks for
  Paris; Bob selects Paris. The answer is recorded and his score stays 0, in a room and
  in a single-player session alike.
\<close>

theorem part000_correct_answer_scores_nothing:
  "map correct_answer (questions room_part000) ! currentQuestionIndex room_part000 = Some ''Paris''
   \<and> answer_in ''B'' (submitAnswer_legacy ''B'' ''Paris'' (Some room_part000)) = Some ''Paris''
   \<and> score_in ''B'' (submitAnswer_legacy ''B'' ''Paris'' (Some room_part000)) = Some 0
   \<and> session_scores session_part000 = Some [0]
   \<and> session_scores (state_after (handleAnswerSelect_legacy ''B'' single session_part000 ''Paris''))
       = Some [0]"
  by code_simp

text \<open>
  The older copies score an answer that equals the property they read: on questions
  mapped by \<open>question_legacy\<close> the older copy of \<^verbatim>\<open>App.jsx\<close> gives the point.
\<close>

lemma submitAnswer_legacy_eq:
  "submitAnswer_legacy u a (Some r) =
     Some (if map_of (answers r) u \<noteq> None \<or> \<not> currentQuestionIndex r < length (questions r)
           then r
           else if correctAnswer (questions r ! currentQuestionIndex r) = Some a
           then r\<lparr>answers := AList.update u a (answers r),
                  players := map (\<lambda>p. if uid p = u then p\<lparr>score := score p + 1\<rparr> else p)
                               (players r)\<rparr>
           else r\<lparr>answers := AList.update u a (answers r)\<rparr>)"
  by (auto simp: submitAnswer_legacy_def submit_from_legacy_def handleAnswerSelect_legacy_def
      game_onSnapshot_legacy_def game_init_def apply_writes_def Let_def at_index_def
      split: option.splits)

lemma handleNextQuestion_part000_same_writes:
  "issued (handleNextQuestion_part000 u multiplayer st) = issued (handleNextQuestion u multiplayer st)"
  by (simp add: handleNextQuestion_part000_def handleNextQuestion_def Let_def split: option.splits)

section \<open>Joining\<close>

text \<open>
  C5 on a finished room. The guard of \<^verbatim>\<open>handleJoinRoom\<close> compares the game state with
  \<open>playing\<close> only. Cy enters the code of the finished room of Ann and Bob: no message is
  shown, Cy is appended to the player list and the lobby opens.
\<close>

theorem handleJoinRoom_admits_to_finished_room:
  "gameState finished_room = finished
   \<and> shown_error (handleJoinRoom ''C'' ''Cy'' (Some finished_room)) = None
   \<and> next_view (handleJoinRoom ''C'' ''Cy'' (Some finished_room)) = Some lobby
   \<and> joinRoom ''C'' ''Cy'' (Some finished_room) =
       Some (finished_room\<lparr>players :=
         players finished_room @ [\<lparr>uid = ''C'', name = ''Cy'', score = 0\<rparr>]\<rparr>)"
  by code_simp

text \<open>
  While a game is being played the current copy refuses every join, members included:
  it shows the message and writes nothing.
\<close>

theorem handleJoinRoom_refuses_while_playing:
  assumes "gameState r = playing"
  shows "handleJoinRoom userId pName (Some r) =
       \<lparr>writes = [], shown_error = Some ''This game has already started.'', next_view = None\<rparr>
     \<and> joinRoom userId pName (Some r) = Some r"
  using assms by (simp add: handleJoinRoom_def joinRoom_eq)

theorem handleJoinRoom_refuses_while_playing_witness:
  "shown_error (handleJoinRoom ''A'' ''Ann'' (Some started_room))
     = Some ''This game has already started.''
   \<and> joinRoom ''C'' ''Cy'' (Some started_room) = Some started_room"
proof -
  have h: "gameState started_room = playing" by (simp add: started_room_def)
  from handleJoinRoom_refuses_while_playing[OF h, of "''A''" "''Ann''"]
    handleJoinRoom_refuses_while_playing[OF h, of "''C''" "''Cy''"]
  show ?thesis by simp
qed

lemma handleJoinRoom_legacy_admits_always:
  "shown_error (handleJoinRoom_legacy userId pName (Some r)) = None
   \<and> next_view (handleJoinRoom_legacy userId pName (Some r)) = Some lobby"
  by (simp add: handleJoinRoom_legacy_def)

section \<open>Creating a room or a session\<close>

text \<open>
  C7 in the older copies. Ten questions are requested and six arrive: the older
  \<^verbatim>\<open>handleCreateRoom\<close> shows no message and writes a room of six questions, and the older
  single-player setup starts a session of six.
\<close>

theorem legacy_creation_accepts_shortage:
  "amount ten = 10 \<and> length six_questions_legacy = 6
   \<and> shown_error (handleCreateRoom_legacy ''A'' ''Ann'' ten six_questions_legacy 0) = None
   \<and> question_count
       (apply_writes (writes (handleCreateRoom_legacy ''A'' ''Ann'' ten six_questions_legacy 0)) None)
       = Some 6
   \<and> question_count
       (gameData (setupGame_legacy ''A'' ''Ann'' single ten six_questions_legacy game_init))
       = Some 6"
  by code_simp

text \<open>
  The current copy. When fewer questions arrive than the settings ask for, none included,
  \<^verbatim>\<open>handleCreateRoom\<close> shows its message, writes nothing and opens no view, and the
  single-player setup shows its notice and starts no session. When a room or session is
  created it holds the fetched questions as they are, and \<^verbatim>\<open>fetchQuestions\<close> never
  returns more than the amount: a created room holds exactly the requested number.
\<close>

theorem creation_refuses_shortage:
  assumes "length fetched < amount gs"
  shows "handleCreateRoom userId playerName gs fetched now =
       \<lparr>writes = [],
        shown_error = Some ''Could not fetch enough questions with these settings. Please try again.'',
        next_view = None\<rparr>
     \<and> createRoom userId playerName gs fetched now st = st
     \<and> gameData (setupGame userId playerName single gs fetched game_init) = None
     \<and> modalContent (setupGame userId playerName single gs fetched game_init)
         = Some NotEnoughQuestions"
  using assms
  by (simp add: handleCreateRoom_def createRoom_def setupGame_def apply_writes_def game_init_def)

theorem creation_refuses_shortage_witness:
  "createRoom ''A'' ''Ann'' ten (six_questions) 0 None = None
   \<and> createRoom ''A'' ''Ann'' ten [] 0 None = None
   \<and> modalContent (setupGame ''A'' ''Ann'' single ten (six_questions) game_init)
       = Some NotEnoughQuestions"
proof -
  have h1: "length (six_questions) < amount ten" by code_simp
  have h2: "length ([] :: trivia_question list) < amount ten" by (simp add: ten_def)
  from creation_refuses_shortage[OF h1, of "''A''" "''Ann''" 0 None]
    creation_refuses_shortage[OF h2, of "''A''" "''Ann''" 0 None]
  show ?thesis by simp
qed

lemma length_shuffleArray: "length (shuffleArray ds xs) = length xs"
proof (induction ds xs rule: shuffleArray.induct)
  case (3 d ds x xs)
  have "d mod length (x # xs) < length (x # xs)" by simp
  with 3 show ?case by (auto simp: Let_def)
qed simp_all

lemma length_fetchQuestions: "length (fetchQuestions ds da gs api) \<le> amount gs"
  by (simp add: fetchQuestions_def Let_def)

lemma created_room_holds_fetched:
  "\<not> length fetched < amount gs \<Longrightarrow>
     createRoom userId playerName gs fetched now st =
       Some \<lparr>hostId = Some userId,
             players = [\<lparr>uid = userId, name = playerName, score = 0\<rparr>],
             questions = fetched, gameSettings = Some gs, currentQuestionIndex = 0,
             gameState = waiting, createdAt = Some now, answers = []\<rparr>"
  by (simp add: createRoom_def handleCreateRoom_def apply_writes_def)

lemma created_room_has_amount:
  "\<not> length (fetchQuestions ds da gs api) < amount gs \<Longrightarrow>
     question_count (createRoom userId playerName gs (fetchQuestions ds da gs api) now st)
       = Some (amount gs)"
  using length_fetchQuestions[of ds da gs api]
  by (simp add: created_room_holds_fetched question_count_def)

section \<open>The game state\<close>

text \<open>
  C8 as stated fails. The finished room of Ann and Bob is reached by playing the whole
  game; the lobby of a finished room opens for whoever enters its code. Ann, the host,
  starts the game there: the game state goes from \<open>finished\<close> to \<open>playing\<close>.
\<close>

theorem startGame_restarts_finished_room:
  "run whole_game game_of_two = Some finished_room
   \<and> gameState finished_room = finished
   \<and> next_view (handleJoinRoom ''A'' ''Ann'' (Some finished_room)) = Some lobby
   \<and> state_in (startGame ''A'' (Some finished_room)) = Some playing"
  by code_simp

text \<open>
  C8, as it holds. In a finished room, answering, advancing and joining leave the game
  state \<open>finished\<close>, and leaving does so or deletes the room. Starting does not look at
  the game state: \<^verbatim>\<open>handleStartGame\<close> writes \<open>playing\<close> whatever the state was. The lobby
  offers the start control to the host of a room with players; for everyone else the
  room stays as it is.
\<close>

theorem finished_left_by_startGame_only:
  assumes "gameState r = finished"
  shows "state_in (submitAnswer u a (Some r)) = Some finished
     \<and> state_in (advanceQuestion u (Some r)) = Some finished
     \<and> state_in (joinRoom u n (Some r)) = Some finished
     \<and> state_in (leaveRoom u (Some r)) \<in> {None, Some finished}
     \<and> handleStartGame = [UpdateDoc [GameState playing]]
     \<and> startGame u (Some r) =
         Some (if hostId r = Some u \<and> players r \<noteq> [] then r\<lparr>gameState := playing\<rparr> else r)"
  using assms
  by (auto simp: state_in_def submitAnswer_eq advanceQuestion_eq joinRoom_eq leaveRoom_eq
      startGame_eq handleStartGame_def Let_def split: option.splits)

theorem finished_left_by_startGame_only_witness:
  "state_in (advanceQuestion ''A'' (Some finished_room)) = Some finished
   \<and> state_in (submitAnswer ''B'' ''Paris'' (Some finished_room)) = Some finished
   \<and> startGame ''B'' (Some finished_room) = Some finished_room
   \<and> startGame ''A'' (Some finished_room) = Some (finished_room\<lparr>gameState := playing\<rparr>)"
proof -
  have h: "gameState finished_room = finished" by (simp add: finished_room_def)
  have a: "hostId finished_room = Some ''A'' \<and> players finished_room \<noteq> []"
    by (simp add: finished_room_def last_question_room_def started_room_def)
  from finished_left_by_startGame_only[OF h, of "''A''"]
    finished_left_by_startGame_only[OF h, of "''B''" "''Paris''"] a
  show ?thesis by simp
qed

section \<open>The keys of the answers and the player list\<close>

lemma answers_within_players_iff:
  "answers_within_players (Some r) \<longleftrightarrow> fst ` set (answers r) \<subseteq> uid ` set (players r)"
proof -
  have "(\<forall>k \<in> set (answers r). \<exists>p \<in> set (players r). uid p = fst k)
     \<longleftrightarrow> fst ` set (answers r) \<subseteq> uid ` set (players r)"
    by (simp add: image_subset_iff image_iff) metis
  then show ?thesis
    by (simp add: answers_within_players_def list_all_iff list_ex_iff)
qed

lemma answers_within_players_None: "answers_within_players None"
  by (simp add: answers_within_players_def)

lemma by_member_submit_iff:
  "by_member (SubmitAnswer u a) (Some r) \<longleftrightarrow> u \<in> uid ` set (players r)"
  by (auto simp: list_ex_iff)

lemma submitAnswer_keeps_within:
  assumes "answers_within_players (Some r)" and "u \<in> uid ` set (players r)"
  shows "answers_within_players (submitAnswer u a (Some r))"
proof -
  have bump: "uid ` set (ps[i := (ps ! i)\<lparr>score := s\<rparr>]) = uid ` set ps" if "i < length ps"
    for ps :: "player list" and i s
    using uids_after_bump[OF that, of s] by (metis set_map)
  have idx: "i < length (players r)" if "findIndex (\<lambda>p. uid p = u) (players r) = Some i" for i
    using findIndex_less[OF that] by simp
  show ?thesis
    using assms
    by (auto simp: submitAnswer_eq answers_within_players_iff dom_update bump idx
        split: option.splits)
qed

lemma leaveRoom_keeps_within:
  assumes "answers_within_players (Some r)" and "map_of (answers r) u = None"
  shows "answers_within_players (leaveRoom u (Some r))"
proof -
  have notin: "u \<notin> fst ` set (answers r)"
    using assms(2) by (simp add: map_of_eq_None_iff)
  have "fst ` set (answers r) \<subseteq> uid ` set (filter (\<lambda>p. uid p \<noteq> u) (players r))"
  proof
    fix k
    assume k: "k \<in> fst ` set (answers r)"
    with assms(1) obtain p where "p \<in> set (players r)" "uid p = k"
      by (auto simp: answers_within_players_iff)
    moreover from k notin have "k \<noteq> u" by auto
    ultimately show "k \<in> uid ` set (filter (\<lambda>p. uid p \<noteq> u) (players r))" by auto
  qed
  with assms(1) show ?thesis
    by (simp add: leaveRoom_eq Let_def answers_within_players_iff answers_within_players_None)
qed

lemma step_keeps_within:
  assumes "answers_within_players st" and "keeps_answers x st"
  shows "answers_within_players (apply_op x st)"
proof (cases st)
  case None
  then show ?thesis
    by (cases x) (simp_all add: no_room_stays_none answers_within_players_None)
next
  case (Some r)
  show ?thesis
  proof (cases x)
    case (JoinRoom u n)
    with Some assms(1) show ?thesis
      by (auto simp: joinRoom_eq answers_within_players_iff)
  next
    case (LeaveRoom u)
    with Some assms(2) have "map_of (answers r) u = None"
      by (simp add: keeps_answers_def)
    with Some LeaveRoom assms(1) show ?thesis
      by (simp add: leaveRoom_keeps_within)
  next
    case (StartGame u)
    with Some assms(1) show ?thesis
      by (auto simp: startGame_eq answers_within_players_iff)
  next
    case (SubmitAnswer u a)
    with Some assms(2) have "u \<in> uid ` set (players r)"
      by (simp only: keeps_answers_def by_member_submit_iff)
    with Some SubmitAnswer assms(1) show ?thesis
      by (simp add: submitAnswer_keeps_within)
  next
    case (AdvanceQuestion u)
    with Some assms(1) show ?thesis
      by (auto simp: advanceQuestion_eq answers_within_players_iff)
  qed
qed

lemma created_within: "answers_within_players (createRoom userId playerName gs fetched now None)"
  by (simp add: createRoom_def handleCreateRoom_def apply_writes_def answers_within_players_def)

lemma reaches_run:
  "reaches allowed init st \<Longrightarrow> allowed_along allowed xs st \<Longrightarrow>
     reaches allowed init (run xs st)"
proof (induction xs arbitrary: st)
  case Nil
  then show ?case by (simp add: run_def)
next
  case (Cons x xs)
  from Cons.prems have "reaches allowed init (apply_op x st)"
    by (auto intro: reaches_step)
  with Cons.prems Cons.IH[of "apply_op x st"] show ?case by (simp add: run_def)
qed

text \<open>
  C9, as it holds. A room is created and then joined, left, started, answered in and
  advanced in any order, where whoever answers or leaves is a player of the room and
  nobody leaves while \<open>answers\<close> holds an entry of theirs. In every state so reached each
  key of \<open>answers\<close> is the id of a current player.
\<close>

theorem answers_within_players_unless_left_behind:
  assumes "reaches keeps_answers (createRoom userId playerName gs fetched now None) st"
  shows "answers_within_players st"
  using assms
proof (induction rule: reaches.induct)
  case reaches_init
  show ?case by (rule created_within)
next
  case (reaches_step st x)
  then show ?case by (simp add: step_keeps_within)
qed

theorem answers_within_players_unless_left_behind_witness:
  "answers_within_players (run with_lobby_leave created_room)"
proof -
  have "allowed_along keeps_answers with_lobby_leave created_room" by code_simp
  with reaches_init have "reaches keeps_answers created_room (run with_lobby_leave created_room)"
    by (rule reaches_run)
  then show ?thesis
    unfolding created_room_def by (rule answers_within_players_unless_left_behind)
qed

text \<open>
  C9 as stated fails. Ann creates the room, Bob joins, Ann starts; both answer each of
  the five questions and Ann advances after each; the game is finished, with the answers
  to the last question still in place. Bob enters the code again, which the finished
  room admits, and leaves from the lobby. Every step is run by a player of the room.
  Bob's answer stays while Bob is no longer a player.
\<close>

theorem leaving_keeps_the_answer:
  "reaches by_member created_room (run from_creation created_room)
   \<and> answer_in ''B'' (run from_creation created_room) = Some ''Oslo''
   \<and> score_in ''B'' (run from_creation created_room) = None
   \<and> \<not> answers_within_players (run from_creation created_room)"
proof -
  have "allowed_along by_member from_creation created_room" by code_simp
  with reaches_init have r: "reaches by_member created_room (run from_creation created_room)"
    by (rule reaches_run)
  have "answer_in ''B'' (run from_creation created_room) = Some ''Oslo''
     \<and> score_in ''B'' (run from_creation created_room) = None
     \<and> \<not> answers_within_players (run from_creation created_room)"
    by code_simp
  with r show ?thesis by simp
qed


end
